theory Spec2Isabelle
  imports Main "HOL-Library.Word"
begin

section \<open>Results of calls that may panic\<close>

text \<open>
  A Go call either returns or panics with a message.  Every function of the
  embedding that can panic returns a value of this type.
\<close>

datatype 'a result = Ok 'a | Panic string

section \<open>The mode flag (router.go, lines 16--34)\<close>

definition DebugMode :: int where
  "DebugMode = 0"

definition ReleaseMode :: int where
  "ReleaseMode = 1"

text \<open>
  \<^verbatim>\<open>strconv.FormatInt(value, 10)\<close>: the decimal digits of a signed integer,
  with a leading minus sign for a negative one.
\<close>

function digits10 :: "nat \<Rightarrow> string" where
  "digits10 n =
     (if n < 10 then [char_of (48 + n)]
      else digits10 (n div 10) @ [char_of (48 + n mod 10)])"
  by pat_completeness auto
termination
  by (relation "measure id") auto

definition FormatInt :: "int \<Rightarrow> string" where
  "FormatInt i = (if i < 0 then CHR ''-'' # digits10 (nat (- i)) else digits10 (nat i))"

text \<open>
  \<^verbatim>\<open>SetMode(value int64)\<close> switches on its argument and assigns the
  package variable \<^verbatim>\<open>prouterMode\<close>; the second argument is the old value of
  that variable and the result is its new value.
\<close>

definition SetMode :: "64 word \<Rightarrow> int \<Rightarrow> int result" where
  "SetMode val prouterMode =
     (if sint val = DebugMode then Ok DebugMode
      else if sint val = ReleaseMode then Ok ReleaseMode
      else Panic (''Prouter mode unknown: '' @ FormatInt (sint val)
                  @ '' (available mode: debug release test)''))"

section \<open>Responses and the envelope\<close>

text \<open>
  Modelled from the spec: the \<^verbatim>\<open>Response\<close> interface, the
  \<^verbatim>\<open>ResponseTmpl\<close> type with \<^verbatim>\<open>NewResponseTmpl\<close> and its setters, and
  \<^verbatim>\<open>ErrorResponse\<close> are declared outside the two source files.  The spec
  gives the envelope as \<open>{code: integer, message: string, data: optional
  value}\<close> and lets a handler's result carry its own code, message and data;
  one record serves for both.  A \<^verbatim>\<open>nil\<close> response is \<open>None\<close>, a
  \<^verbatim>\<open>nil\<close> data value is \<open>None\<close>.
\<close>

record 'd Response =
  Code :: int
  Message :: string
  Data :: "'d option"

definition GetCode :: "'d Response \<Rightarrow> int" where
  "GetCode r = Code r"

definition GetMessage :: "'d Response \<Rightarrow> string" where
  "GetMessage r = Message r"

definition GetData :: "'d Response \<Rightarrow> 'd option" where
  "GetData r = Data r"

definition NewResponseTmpl :: "'d Response" where
  "NewResponseTmpl = \<lparr>Code = 0, Message = [], Data = None\<rparr>"

definition SetCode :: "int \<Rightarrow> 'd Response \<Rightarrow> 'd Response" where
  "SetCode c r = r\<lparr>Code := c\<rparr>"

definition SetMessage :: "string \<Rightarrow> 'd Response \<Rightarrow> 'd Response" where
  "SetMessage m r = r\<lparr>Message := m\<rparr>"

definition SetData :: "'d option \<Rightarrow> 'd Response \<Rightarrow> 'd Response" where
  "SetData d r = r\<lparr>Data := d\<rparr>"

definition ErrorResponse :: "int \<Rightarrow> string \<Rightarrow> 'd Response" where
  "ErrorResponse c m = \<lparr>Code = c, Message = m, Data = None\<rparr>"

text \<open>A Go \<^verbatim>\<open>error\<close>: \<open>None\<close> is \<^verbatim>\<open>nil\<close>, \<open>Some t\<close> has the text \<open>t\<close>.\<close>

type_synonym goerror = "string option"

definition StatusNotFound :: int where
  "StatusNotFound = 404"

definition StatusInternalServerError :: int where
  "StatusInternalServerError = 500"

text \<open>
  \<^verbatim>\<open>packResponseTmpl\<close> (router.go, lines 217--257).  The locals
  \<^verbatim>\<open>data\<close>, \<^verbatim>\<open>code\<close> and \<^verbatim>\<open>msg\<close> are bound in the order of the source;
  \<^verbatim>\<open>msg\<close> keeps its zero value unless \<^verbatim>\<open>err != nil\<close>.
\<close>

definition packResponseTmpl :: "'d Response option \<Rightarrow> goerror \<Rightarrow> int \<times> 'd Response" where
  "packResponseTmpl resp err =
     (let data0 = (case resp of None \<Rightarrow> None | Some r \<Rightarrow> GetData r);
          code0 = (case resp of None \<Rightarrow> 200 | Some r \<Rightarrow> GetCode r);
          msg = (case err of
                   None \<Rightarrow> []
                 | Some e \<Rightarrow>
                     (case resp of
                        None \<Rightarrow> e
                      | Some r \<Rightarrow> if GetMessage r = [] then e else GetMessage r));
          code1 = (case err of
                     None \<Rightarrow> code0
                   | Some e \<Rightarrow>
                       if code0 = 0 \<or> code0 = 200 then StatusInternalServerError else code0);
          ret = SetData data0 (SetMessage msg (SetCode code1 NewResponseTmpl))
      in (code1, ret))"

section \<open>Requests and the client address (router.go, lines 163--178)\<close>

record Request =
  Method :: string
  URLPath :: string
  URLRawPath :: string
  URLRawQuery :: string
  RemoteAddr :: string
  muxVars :: "(string \<rightharpoonup> string) option"

text \<open>
  The functions of Go's standard library that \<^verbatim>\<open>remoteIP\<close> and
  \<^verbatim>\<open>clientIP\<close> call are parameters: \<^verbatim>\<open>strings.TrimSpace\<close>,
  \<^verbatim>\<open>net.SplitHostPort\<close> (\<open>None\<close> when it returns an error),
  \<^verbatim>\<open>net.ParseIP\<close> (\<open>None\<close> when it returns \<^verbatim>\<open>nil\<close>) and the
  \<^verbatim>\<open>String\<close> method of a parsed address.
\<close>

record 'ip netlib =
  TrimSpace :: "string \<Rightarrow> string"
  SplitHostPort :: "string \<Rightarrow> (string \<times> string) option"
  ParseIP :: "string \<Rightarrow> 'ip option"
  IPString :: "'ip \<Rightarrow> string"

definition remoteIP :: "'ip netlib \<Rightarrow> Request \<Rightarrow> string" where
  "remoteIP lib r =
     (case SplitHostPort lib (TrimSpace lib (RemoteAddr r)) of
        None \<Rightarrow> []
      | Some (ip, port) \<Rightarrow> ip)"

definition clientIP :: "'ip netlib \<Rightarrow> Request \<Rightarrow> string" where
  "clientIP lib r =
     (case ParseIP lib (remoteIP lib r) of
        None \<Rightarrow> []
      | Some ip \<Rightarrow> IPString lib ip)"

section \<open>Handlers, middlewares and what reaches the wire\<close>

text \<open>
  The request context built in \<^verbatim>\<open>makeHttpHandler\<close>.  The embedded
  \<^verbatim>\<open>context.Context\<close>, the writer (its effect is the event list below) and
  the back pointer to the router are left out.
\<close>

record Context =
  CtxRequest :: Request
  Path :: string
  CtxMethod :: string
  ClientIp :: string
  startTime :: nat
  vars :: "string \<rightharpoonup> string"

text \<open>
  What a request leaves behind, in order.  \<open>WriteJSON status v\<close> is one call
  \<^verbatim>\<open>WriteJSON(w, status, v)\<close>; \<open>WriteRaw status body\<close> is a response written
  by \<^verbatim>\<open>http.FileServer\<close>; \<open>Trace\<close> marks are left by the observing
  middlewares and handlers defined further down.

  Modelled from the spec: \<^verbatim>\<open>WriteJSON\<close> is declared outside the two source
  files; the spec has the envelope serialized to the wire with the resolved
  code as the transport status.
\<close>

datatype mark = Enter string | Exit string | Body string

datatype 'd event =
    Trace mark
  | WriteJSON int "'d Response"
  | WriteRaw int string

text \<open>
  Modelled from the spec: the interfaces \<^verbatim>\<open>handlerFunc\<close> and
  \<^verbatim>\<open>Middleware\<close> are declared outside the two source files.  A handler
  takes the context and returns \<^verbatim>\<open>(Response, error)\<close> or panics; a
  middleware is a transformation of handlers (its \<^verbatim>\<open>WrapHandler\<close>).
\<close>

type_synonym 'd handlerFunc =
  "Context \<Rightarrow> 'd event list \<Rightarrow> ('d Response option \<times> goerror) result \<times> 'd event list"

type_synonym 'd Middleware = "'d handlerFunc \<Rightarrow> 'd handlerFunc"

type_synonym 'd httpHandler =
  "Request \<Rightarrow> 'd event list \<Rightarrow> unit result \<times> 'd event list"

definition WrapHandler :: "'d Middleware \<Rightarrow> 'd handlerFunc \<Rightarrow> 'd handlerFunc" where
  "WrapHandler m h = m h"

section \<open>Go slices over shared backing arrays\<close>

text \<open>
  A slice is a header (array, length, capacity); copying a slice copies the
  header and shares the array.  An array is kept as the list of its slots
  written so far.  \<^verbatim>\<open>append\<close> writes in place when the capacity
  suffices and otherwise copies into a fresh array, whose capacity the
  runtime chooses (the parameter \<open>grow\<close>, never below what is needed).
\<close>

record slice =
  ptr :: nat
  len :: nat
  cap :: nat

record 'm heap =
  arrays :: "nat \<Rightarrow> 'm list"
  nextArr :: nat

definition nilSlice :: slice where
  "nilSlice = \<lparr>ptr = 0, len = 0, cap = 0\<rparr>"

definition make0 :: "'m heap \<Rightarrow> slice \<times> 'm heap" where
  "make0 h =
     (\<lparr>ptr = nextArr h, len = 0, cap = 0\<rparr>,
      h\<lparr>arrays := (arrays h)(nextArr h := []), nextArr := Suc (nextArr h)\<rparr>)"

definition appendSlice ::
  "(nat \<Rightarrow> nat \<Rightarrow> nat) \<Rightarrow> slice \<Rightarrow> 'm list \<Rightarrow> 'm heap \<Rightarrow> slice \<times> 'm heap" where
  "appendSlice grow s xs h =
     (let n = len s + length xs; arr = arrays h (ptr s) in
      if n \<le> cap s then
        (s\<lparr>len := n\<rparr>,
         h\<lparr>arrays := (arrays h)(ptr s := take (len s) arr @ xs @ drop n arr)\<rparr>)
      else
        (\<lparr>ptr = nextArr h, len = n, cap = max n (grow (cap s) n)\<rparr>,
         h\<lparr>arrays := (arrays h)(nextArr h := take (len s) arr @ xs),
           nextArr := Suc (nextArr h)\<rparr>))"

definition view :: "'m heap \<Rightarrow> slice \<Rightarrow> 'm list" where
  "view h s = take (len s) (arrays h (ptr s))"

text \<open>
  Both slices are allocated and within their arrays, and where they share an
  array \<open>s\<close> is no longer than \<open>g\<close>: then an append to \<open>g\<close> writes past
  what \<open>s\<close> shows.
\<close>

definition below :: "'m heap \<Rightarrow> slice \<Rightarrow> slice \<Rightarrow> bool" where
  "below h s g \<longleftrightarrow>
     ptr s < nextArr h \<and> ptr g < nextArr h \<and>
     len s \<le> length (arrays h (ptr s)) \<and> len g \<le> length (arrays h (ptr g)) \<and>
     (ptr g = ptr s \<longrightarrow> len s \<le> len g)"

section \<open>The router, its groups and the route table\<close>

text \<open>
  The path-matching engine (gorilla/mux) is external.  Of a
  \<^verbatim>\<open>mux.Router\<close> the embedding keeps the matchers that lead to it and the
  two handler fields the code assigns; of a \<^verbatim>\<open>mux.Route\<close> its matchers in
  the order they were added and its handler.  A sub-router starts with both
  handler fields unset.
\<close>

datatype matcher =
    Host string
  | Schemes "string list"
  | PathPrefix string
  | PathTpl string
  | Methods "string list"
  | Headers "string list"

record 'd muxRouter =
  scope :: "matcher list"
  NotFoundHandler :: "'d httpHandler option"
  MethodNotAllowedHandler :: "'d httpHandler option"

definition NewRouter :: "'d muxRouter" where
  "NewRouter = \<lparr>scope = [], NotFoundHandler = None, MethodNotAllowedHandler = None\<rparr>"

definition Subrouter :: "'d muxRouter \<Rightarrow> matcher \<Rightarrow> 'd muxRouter" where
  "Subrouter r m = \<lparr>scope = scope r @ [m], NotFoundHandler = None, MethodNotAllowedHandler = None\<rparr>"

type_synonym RouteOption = "matcher list \<Rightarrow> matcher list"

text \<open>
  Modelled from the spec: \<^verbatim>\<open>Route\<close>, \<^verbatim>\<open>NewRoute\<close> and \<^verbatim>\<open>iRoute\<close> are
  declared outside the two source files.  The spec's route is \<open>{method,
  pattern, handler}\<close>; \<^verbatim>\<open>iRoute\<close> has the fields the sources assign.
\<close>

record 'd Route =
  routeMethod :: string
  routePath :: string
  routeHandler :: "'d handlerFunc"

definition NewRoute :: "string \<Rightarrow> string \<Rightarrow> 'd handlerFunc \<Rightarrow> 'd Route" where
  "NewRoute method path handler =
     \<lparr>routeMethod = method, routePath = path, routeHandler = handler\<rparr>"

record 'd iRoute =
  Route :: "'d Route"
  irRouter :: "'d muxRouter"
  middleware :: slice
  routeOption :: "RouteOption option"

text \<open>
  A route of the engine: the handler \<^verbatim>\<open>f\<close> that \<^verbatim>\<open>initRouter\<close> installs is
  the closure \<^verbatim>\<open>makeHttpHandler(r)\<close>, kept here as the \<^verbatim>\<open>iRoute\<close> it
  captured.
\<close>

record 'd muxRoute =
  matchers :: "matcher list"
  captured :: "'d iRoute"

text \<open>
  \<^verbatim>\<open>RouterGroup\<close> (group.go, lines 14--22); the field \<^verbatim>\<open>routes\<close> is
  never read or written after its creation and is left out, and the pointer
  \<^verbatim>\<open>prouter\<close> is the router state that every operation takes.
\<close>

record 'd RouterGroup =
  router :: "'d muxRouter"
  gmiddlewares :: slice
  root :: bool

text \<open>
  \<^verbatim>\<open>Prouter\<close> (router.go, lines 36--41) with, besides its own fields, the
  memory holding the middleware arrays and the engine's route table in
  registration order.
\<close>

record 'd Prouter =
  rootGroup :: "'d RouterGroup"
  host :: string
  scheme :: string
  middlewares :: slice
  heap :: "'d Middleware heap"
  table :: "'d muxRoute list"

definition irMethod :: "'d iRoute \<Rightarrow> string" where
  "irMethod r = routeMethod (Route r)"

definition irPath :: "'d iRoute \<Rightarrow> string" where
  "irPath r = routePath (Route r)"

definition irHandler :: "'d iRoute \<Rightarrow> 'd handlerFunc" where
  "irHandler r = routeHandler (Route r)"

definition vrouter :: "'d Prouter \<Rightarrow> 'd muxRouter" where
  "vrouter v = router (rootGroup v)"

definition setRouter :: "'d Prouter \<Rightarrow> 'd muxRouter \<Rightarrow> 'd Prouter" where
  "setRouter v r = v\<lparr>rootGroup := (rootGroup v)\<lparr>router := r\<rparr>\<rparr>"

subsection \<open>Groups and middleware lists (group.go, lines 24--34 and 87--92; router.go, 142--144)\<close>

definition newGroupWithRouter ::
  "'d muxRouter \<Rightarrow> 'd Middleware heap \<Rightarrow> 'd RouterGroup \<times> 'd Middleware heap" where
  "newGroupWithRouter r h =
     (let (s, h') = make0 h
      in (\<lparr>router = r, gmiddlewares = s, root = False\<rparr>, h'))"

text \<open>
  \<^verbatim>\<open>RouterGroup.UseMiddleware\<close>.  The receiver is a pointer: for the root
  group, which is embedded in the router, the assignment also changes the
  router's copy of the field.
\<close>

definition RouterGroup_UseMiddleware ::
  "(nat \<Rightarrow> nat \<Rightarrow> nat) \<Rightarrow> 'd RouterGroup \<Rightarrow> 'd Middleware list \<Rightarrow> 'd Prouter
     \<Rightarrow> 'd RouterGroup \<times> 'd Prouter" where
  "RouterGroup_UseMiddleware grow rg m v =
     (let (s, h') = appendSlice grow (gmiddlewares rg) m (heap v);
          v' = (if root rg then v\<lparr>rootGroup := (rootGroup v)\<lparr>gmiddlewares := s\<rparr>\<rparr> else v)
      in (rg\<lparr>gmiddlewares := s\<rparr>, v'\<lparr>heap := h'\<rparr>))"

text \<open>\<^verbatim>\<open>Prouter.UseMiddleware\<close>: the global list.\<close>

definition Prouter_UseMiddleware ::
  "(nat \<Rightarrow> nat \<Rightarrow> nat) \<Rightarrow> 'd Middleware list \<Rightarrow> 'd Prouter \<Rightarrow> 'd Prouter" where
  "Prouter_UseMiddleware grow m v =
     (let (s, h') = appendSlice grow (middlewares v) m (heap v)
      in v\<lparr>middlewares := s, heap := h'\<rparr>)"

definition Group :: "'d RouterGroup \<Rightarrow> string \<Rightarrow> 'd Prouter \<Rightarrow> 'd RouterGroup \<times> 'd Prouter" where
  "Group rg prefix v =
     (let (g, h') = newGroupWithRouter (Subrouter (router rg) (PathPrefix prefix)) (heap v)
      in (g, v\<lparr>heap := h'\<rparr>))"

text \<open>A run of calls \<^verbatim>\<open>rg.UseMiddleware(m...)\<close> on one group, one call per element of \<open>mss\<close>.\<close>

definition useAll ::
  "(nat \<Rightarrow> nat \<Rightarrow> nat) \<Rightarrow> 'd RouterGroup \<Rightarrow> 'd Middleware list list \<Rightarrow> 'd Prouter
     \<Rightarrow> 'd RouterGroup \<times> 'd Prouter" where
  "useAll grow rg mss v = foldl (\<lambda>(g, w) m. RouterGroup_UseMiddleware grow g m w) (rg, v) mss"

subsection \<open>Registering a route (router.go, lines 126--140; group.go, lines 60--85)\<close>

text \<open>The debug line that \<^verbatim>\<open>initRouter\<close> prints is not part of the state.\<close>

definition initRouter :: "'d Prouter \<Rightarrow> 'd iRoute \<Rightarrow> 'd Prouter" where
  "initRouter v r =
     (let vr0 = scope (irRouter r) @ [PathTpl (irPath r)];
          vr1 = (if irMethod r \<noteq> [] then vr0 @ [Methods [irMethod r]] else vr0);
          vr2 = (case routeOption r of None \<Rightarrow> vr1 | Some opt \<Rightarrow> opt vr1)
      in v\<lparr>table := table v @ [\<lparr>matchers = vr2, captured = r\<rparr>]\<rparr>)"

definition HandleRoute ::
  "'d RouterGroup \<Rightarrow> string \<Rightarrow> string \<Rightarrow> 'd handlerFunc \<Rightarrow> RouteOption list
     \<Rightarrow> 'd Prouter \<Rightarrow> 'd Prouter" where
  "HandleRoute rg method path handler opts v =
     (let routeOpt = (\<lambda>r. if opts = [] then r else foldl (\<lambda>next opt. opt next) r opts);
          r0 = \<lparr>Route = NewRoute method path handler, irRouter = router rg,
                middleware = nilSlice, routeOption = Some routeOpt\<rparr>;
          r1 = (if \<not> root rg then r0\<lparr>middleware := gmiddlewares rg\<rparr> else r0)
      in initRouter v r1)"

definition MethodGet :: string where
  "MethodGet = ''GET''"

definition GET ::
  "'d RouterGroup \<Rightarrow> string \<Rightarrow> 'd handlerFunc \<Rightarrow> RouteOption list \<Rightarrow> 'd Prouter \<Rightarrow> 'd Prouter" where
  "GET rg path handler opt v = HandleRoute rg MethodGet path handler opt v"

subsection \<open>Constructing the router (router.go, lines 43--109)\<close>

datatype 'd RouterOption =
    WithHost string
  | WithScheme string
  | WithNotFoundHandler "'d httpHandler"
  | WithMethodNotAllowedHandler "'d httpHandler"

fun applyOption :: "'d RouterOption \<Rightarrow> 'd Prouter \<Rightarrow> 'd Prouter" where
  "applyOption (WithHost h) v = v\<lparr>host := h\<rparr>"
| "applyOption (WithScheme s) v = v\<lparr>scheme := s\<rparr>"
| "applyOption (WithNotFoundHandler handler) v =
     setRouter v ((vrouter v)\<lparr>NotFoundHandler := Some handler\<rparr>)"
| "applyOption (WithMethodNotAllowedHandler handler) v =
     setRouter v ((vrouter v)\<lparr>MethodNotAllowedHandler := Some handler\<rparr>)"

definition parseOptions :: "'d RouterOption list \<Rightarrow> 'd Prouter \<Rightarrow> 'd Prouter" where
  "parseOptions opts v =
     (let v1 = foldl (\<lambda>w opt. applyOption opt w) v opts;
          v2 = (if host v1 \<noteq> [] then setRouter v1 (Subrouter (vrouter v1) (Host (host v1)))
                else v1);
          v3 = (if scheme v2 \<noteq> [] then setRouter v2 (Subrouter (vrouter v2) (Schemes [host v2]))
                else v2)
      in v3)"

definition New :: "'d RouterOption list \<Rightarrow> 'd Prouter" where
  "New opts =
     (let h0 = \<lparr>arrays = (\<lambda>a. []), nextArr = 1\<rparr>;
          (g, h1) = newGroupWithRouter NewRouter h0;
          (s, h2) = make0 h1;
          v = \<lparr>rootGroup = g\<lparr>root := True\<rparr>, host = [], scheme = [],
               middlewares = s, heap = h2, table = []\<rparr>
      in parseOptions opts v)"

definition notFoundHandler :: "'d httpHandler" where
  "notFoundHandler r ev =
     (Ok (), ev @ [WriteJSON StatusNotFound (ErrorResponse StatusNotFound ''page not found'')])"

text \<open>
  \<^verbatim>\<open>NewProuter\<close>; the two built-in middlewares it installs
  (\<^verbatim>\<open>NewLogMiddleware()\<close>, \<^verbatim>\<open>NewRecoveryMiddleware()\<close>) are declared outside
  the two source files and are parameters.
\<close>

definition NewProuter ::
  "(nat \<Rightarrow> nat \<Rightarrow> nat) \<Rightarrow> 'd Middleware \<Rightarrow> 'd Middleware \<Rightarrow> 'd RouterOption list
     \<Rightarrow> 'd Prouter" where
  "NewProuter grow logMiddleware recoveryMiddleware opts =
     (let v = New opts;
          v1 = Prouter_UseMiddleware grow [logMiddleware, recoveryMiddleware] v;
          v2 = setRouter v1 ((vrouter v1)\<lparr>NotFoundHandler := Some notFoundHandler\<rparr>);
          v3 = setRouter v2 ((vrouter v2)\<lparr>MethodNotAllowedHandler := Some notFoundHandler\<rparr>)
      in v3)"

section \<open>Dispatch (router.go, lines 146--154 and 180--215)\<close>

definition handleGlobalMiddleware :: "'d Prouter \<Rightarrow> 'd handlerFunc \<Rightarrow> 'd handlerFunc" where
  "handleGlobalMiddleware v handler =
     foldl (\<lambda>h m. WrapHandler m h) handler (rev (view (heap v) (middlewares v)))"

text \<open>
  Modelled from the spec: \<^verbatim>\<open>iRoute.handleSpecifyMiddleware\<close> is declared
  outside the two source files.  The spec composes a middleware list \<open>by
  wrapping from the last element backward to the first\<close>; here that is done
  with the list recorded in the route, around the handler it is given.
\<close>

definition handleSpecifyMiddleware ::
  "'d Middleware heap \<Rightarrow> 'd iRoute \<Rightarrow> 'd handlerFunc \<Rightarrow> 'd handlerFunc" where
  "handleSpecifyMiddleware hp wr handler =
     foldl (\<lambda>h m. WrapHandler m h) handler (rev (view hp (middleware wr)))"

text \<open>The context literal of \<^verbatim>\<open>makeHttpHandler\<close> (lines 184--205); \<open>now\<close> is \<^verbatim>\<open>time.Now()\<close>.\<close>

definition newContext :: "'ip netlib \<Rightarrow> nat \<Rightarrow> Request \<Rightarrow> Context" where
  "newContext lib now r =
     (let path0 = URLPath r;
          raw = URLRawQuery r;
          path1 = (if raw \<noteq> [] then path0 @ ''?'' @ raw else path0)
      in \<lparr>CtxRequest = r, Path = path1, CtxMethod = Method r, ClientIp = clientIP lib r,
          startTime = now,
          vars = (case muxVars r of None \<Rightarrow> Map.empty | Some m \<Rightarrow> m)\<rparr>)"

text \<open>
  The handler that \<^verbatim>\<open>makeHttpHandler(wr)\<close> returns, applied to a request in
  the router state \<open>v\<close> of that moment: the closure reads
  \<^verbatim>\<open>v.middlewares\<close> when it runs.  A panic of the chain is not recovered
  here and leaves through the result.
\<close>

definition makeHttpHandler ::
  "'ip netlib \<Rightarrow> nat \<Rightarrow> 'd Prouter \<Rightarrow> 'd iRoute \<Rightarrow> 'd httpHandler" where
  "makeHttpHandler lib now v wr r ev =
     (let ctx = newContext lib now r;
          handlerFunc0 = handleGlobalMiddleware v (irHandler wr);
          handlerFunc1 = handleSpecifyMiddleware (heap v) wr handlerFunc0
      in case handlerFunc1 ctx ev of
           (Panic p, ev') \<Rightarrow> (Panic p, ev')
         | (Ok (resp, err), ev') \<Rightarrow>
             (let (status, resp') = packResponseTmpl resp err
              in (Ok (), ev' @ [WriteJSON status resp'])))"

text \<open>
  \<^verbatim>\<open>Prouter.ServeHTTP\<close> hands the request to the engine.  What the engine
  finds for a request is a parameter, and so are the handlers it falls back
  on when a handler field is unset.
\<close>

datatype 'd routeMatch = Matched "'d iRoute" | ErrNotFound | ErrMethodMismatch

record 'd engine =
  Match :: "'d muxRoute list \<Rightarrow> Request \<Rightarrow> 'd routeMatch"
  DefaultNotFound :: "'d httpHandler"
  DefaultMethodNotAllowed :: "'d httpHandler"

definition ServeHTTP ::
  "'d engine \<Rightarrow> 'ip netlib \<Rightarrow> nat \<Rightarrow> 'd Prouter \<Rightarrow> 'd httpHandler" where
  "ServeHTTP eng lib now v r ev =
     (case Match eng (table v) r of
        Matched wr \<Rightarrow> makeHttpHandler lib now v wr r ev
      | ErrNotFound \<Rightarrow>
          (case NotFoundHandler (vrouter v) of
             Some h \<Rightarrow> h r ev
           | None \<Rightarrow> DefaultNotFound eng r ev)
      | ErrMethodMismatch \<Rightarrow>
          (case MethodNotAllowedHandler (vrouter v) of
             Some h \<Rightarrow> h r ev
           | None \<Rightarrow> DefaultMethodNotAllowed eng r ev))"

section \<open>Static mounts (group.go, lines 94--122)\<close>

definition TrimPrefix :: "string \<Rightarrow> string \<Rightarrow> string" where
  "TrimPrefix s prefix = (if take (length prefix) s = prefix then drop (length prefix) s else s)"

text \<open>
  \<open>fileServer\<close> is \<^verbatim>\<open>http.FileServer(fs).ServeHTTP\<close>: the status and body it
  writes for a request.  The adapter \<^verbatim>\<open>HandleFunc\<close> passes the request of the
  context to the function it wraps.
\<close>

definition staticHandler :: "string \<Rightarrow> (Request \<Rightarrow> int \<times> string) \<Rightarrow> 'd handlerFunc" where
  "staticHandler prefix fileServer ctx ev =
     (let r = CtxRequest ctx;
          p = TrimPrefix (URLPath r) prefix;
          rp = TrimPrefix (URLRawPath r) prefix
      in if length p < length (URLPath r)
            \<and> (URLRawPath r = [] \<or> length rp < length (URLRawPath r))
         then (let r2 = r\<lparr>URLPath := p, URLRawPath := rp\<rparr>;
                   (status, body) = fileServer r2
               in (Ok (None, None), ev @ [WriteRaw status body]))
         else (Ok (Some (ErrorResponse StatusNotFound ''page not found''),
                   Some ''page not found''), ev))"

text \<open>\<open>join\<close> is \<^verbatim>\<open>path.Join\<close> of Go's standard library.\<close>

definition StaticFS ::
  "(string \<Rightarrow> string \<Rightarrow> string) \<Rightarrow> 'd RouterGroup \<Rightarrow> string \<Rightarrow> (Request \<Rightarrow> int \<times> string)
     \<Rightarrow> RouteOption list \<Rightarrow> 'd Prouter \<Rightarrow> 'd Prouter" where
  "StaticFS join rg relativePath fileServer opts v =
     (let urlPattern = join relativePath ''{filepath}'';
          handler = staticHandler relativePath fileServer
      in GET rg urlPattern handler opts v)"

section \<open>Observers and sample inputs\<close>

text \<open>
  Middlewares and handlers that leave marks, to observe the order of calls:
  a tracing middleware marks its entry, calls the inner handler and marks
  its exit when that returns; a tracing handler marks its body and returns
  the given result.
\<close>

definition traceMiddleware :: "string \<Rightarrow> 'd Middleware" where
  "traceMiddleware n h ctx ev =
     (case h ctx (ev @ [Trace (Enter n)]) of
        (Ok x, ev') \<Rightarrow> (Ok x, ev' @ [Trace (Exit n)])
      | (Panic p, ev') \<Rightarrow> (Panic p, ev'))"

definition traceHandler :: "string \<Rightarrow> 'd Response option \<times> goerror \<Rightarrow> 'd handlerFunc" where
  "traceHandler n res ctx ev = (Ok res, ev @ [Trace (Body n)])"


text \<open>The handler of src/example/api/main.go: \<^verbatim>\<open>panic("test err")\<close>.\<close>

definition helloHandler :: "'d handlerFunc" where
  "helloHandler ctx ev = (Panic ''test err'', ev)"


text \<open>Sample parameters: a capacity policy, address parsing, a request, a file server.\<close>

definition sampleGrow :: "nat \<Rightarrow> nat \<Rightarrow> nat" where
  "sampleGrow c n = 2 * c"

definition sampleLib :: "string netlib" where
  "sampleLib =
     \<lparr>TrimSpace = (\<lambda>s. s),
      SplitHostPort = (\<lambda>s. if s = ''10.0.0.7:4711'' then Some (''10.0.0.7'', ''4711'') else None),
      ParseIP = (\<lambda>s. if s = ''10.0.0.7'' then Some s else None),
      IPString = (\<lambda>ip. ip)\<rparr>"

definition sampleRequest :: "string \<Rightarrow> Request" where
  "sampleRequest p =
     \<lparr>Method = ''GET'', URLPath = p, URLRawPath = [], URLRawQuery = [],
      RemoteAddr = ''10.0.0.7:4711'', muxVars = None\<rparr>"

text \<open>
  The set-up of src/example/api/main.go on a router without built-in
  middlewares: global middlewares \<open>gs\<close>, then a group \<^verbatim>\<open>/group1\<close> that is
  given middlewares in the calls \<open>mss\<close>, then one route on that group.
\<close>

definition sampleGroup ::
  "'d Middleware list \<Rightarrow> 'd Middleware list list \<Rightarrow> 'd RouterGroup \<times> 'd Prouter" where
  "sampleGroup gs mss =
     (let v0 = New [];
          v1 = Prouter_UseMiddleware sampleGrow gs v0;
          (g, v2) = Group (rootGroup v1) ''/group1'' v1
      in useAll sampleGrow g mss v2)"

definition sampleRouter ::
  "'d Middleware list \<Rightarrow> 'd Middleware list \<Rightarrow> 'd handlerFunc \<Rightarrow> 'd Prouter" where
  "sampleRouter gs ms handler =
     (let (g, v) = sampleGroup gs [ms]
      in HandleRoute g MethodGet ''/hello2/{name}'' handler [] v)"

definition sampleRoute ::
  "'d Middleware list \<Rightarrow> 'd Middleware list \<Rightarrow> 'd handlerFunc \<Rightarrow> 'd iRoute" where
  "sampleRoute gs ms handler = captured (last (table (sampleRouter gs ms handler)))"

text \<open>
  A file server over a finite map from paths to contents: the bytes with
  status 200 for a path that is there, a plain not-found response otherwise.
\<close>

definition sampleFileServer :: "(string \<rightharpoonup> string) \<Rightarrow> Request \<Rightarrow> int \<times> string" where
  "sampleFileServer files r =
     (case files (URLPath r) of
        Some bytes \<Rightarrow> (200, bytes)
      | None \<Rightarrow> (404, ''404 page not found''))"

definition sampleJoin :: "string \<Rightarrow> string \<Rightarrow> string" where
  "sampleJoin a b = a @ ''/'' @ b"

text \<open>A router without middlewares and with a static mount.\<close>

definition staticRouter :: "'d Prouter" where
  "staticRouter =
     (let v = New []
      in StaticFS sampleJoin (rootGroup v) ''/assets''
           (sampleFileServer [''/x.png'' \<mapsto> ''PNG'']) [] v)"

definition staticRoute :: "'d iRoute" where
  "staticRoute = captured (last (table staticRouter))"

text \<open>An engine that finds no route: a method mismatch on \<^verbatim>\<open>/test\<close>, nothing elsewhere.\<close>

definition sampleEngine :: "'d engine" where
  "sampleEngine =
     \<lparr>Match = (\<lambda>routes r. if URLPath r = ''/test'' then ErrMethodMismatch else ErrNotFound),
      DefaultNotFound = (\<lambda>r ev. (Ok (), ev @ [WriteRaw 404 ''404 page not found''])),
      DefaultMethodNotAllowed = (\<lambda>r ev. (Ok (), ev @ [WriteRaw 405 []]))\<rparr>"

text \<open>
  A group whose middleware slice has spare capacity (length 3, capacity 4),
  so that the next append writes into the array it shares with the routes
  registered before.
\<close>

definition aliasedGroup :: "nat RouterGroup \<times> nat Prouter" where
  "aliasedGroup =
     sampleGroup [traceMiddleware ''A'', traceMiddleware ''B'']
       [[traceMiddleware ''C'', traceMiddleware ''D''], [traceMiddleware ''E'']]"

text \<open>An engine that resolves every request to the route registered last.\<close>

definition lastRouteEngine :: "'d engine" where
  "lastRouteEngine =
     \<lparr>Match = (\<lambda>routes r. case routes of [] \<Rightarrow> ErrNotFound
                              | x # xs \<Rightarrow> Matched (captured (last routes))),
      DefaultNotFound = (\<lambda>r ev. (Ok (), ev @ [WriteRaw 404 ''404 page not found''])),
      DefaultMethodNotAllowed = (\<lambda>r ev. (Ok (), ev @ [WriteRaw 405 []]))\<rparr>"


section \<open>Auxiliary facts\<close>

lemmas ops_defs = New_def parseOptions_def newGroupWithRouter_def make0_def NewRouter_def
  Prouter_UseMiddleware_def appendSlice_def Group_def Subrouter_def RouterGroup_UseMiddleware_def
  HandleRoute_def initRouter_def NewRoute_def nilSlice_def irPath_def irMethod_def irHandler_def
  MethodGet_def GET_def view_def Let_def vrouter_def setRouter_def

lemmas pack_defs = packResponseTmpl_def Let_def GetCode_def GetMessage_def GetData_def
  NewResponseTmpl_def SetCode_def SetMessage_def SetData_def StatusInternalServerError_def

lemma sint_64_eq_0: "sint (val::64 word) = 0 \<longleftrightarrow> val = 0"
  by (metis sint_0 signed_word_eqI)

lemma sint_64_eq_1: "sint (val::64 word) = 1 \<longleftrightarrow> val = 1"
proof
  assume "sint val = 1"
  then have "sint val = sint (1::64 word)" by simp
  then show "val = 1" by (rule signed_word_eqI)
qed simp

lemma FormatInt_2: "FormatInt 2 = ''2''"
  by code_simp

lemma wrap_foldr:
  "foldl (\<lambda>h m. WrapHandler m h) handler (rev ms) = foldr (\<lambda>m h. m h) ms handler"
  by (induction ms) (simp_all add: WrapHandler_def)

text \<open>The handler of a route as one nest of wrappers: the route's own list around the global list.\<close>

lemma makeHttpHandler_chain:
  "makeHttpHandler lib now v wr r ev =
     (case foldr (\<lambda>m h. m h) (view (heap v) (middleware wr))
             (foldr (\<lambda>m h. m h) (view (heap v) (middlewares v)) (irHandler wr))
             (newContext lib now r) ev of
        (Panic p, ev') \<Rightarrow> (Panic p, ev')
      | (Ok (resp, err), ev') \<Rightarrow>
          (Ok (), ev' @ [WriteJSON (fst (packResponseTmpl resp err))
                                   (snd (packResponseTmpl resp err))]))"
  by (simp add: makeHttpHandler_def handleGlobalMiddleware_def handleSpecifyMiddleware_def
        wrap_foldr Let_def split: prod.splits result.splits)

lemma trace_chain:
  "(\<And>ev. H ctx ev = (Ok x, ev @ mid)) \<Longrightarrow>
   foldr (\<lambda>m h. m h) (map traceMiddleware ns) H ctx ev =
     (Ok x, ev @ map (Trace \<circ> Enter) ns @ mid @ map (Trace \<circ> Exit) (rev ns))"
  by (induction ns arbitrary: ev) (simp_all add: traceMiddleware_def)

lemma sample_globals:
  "view (heap (sampleRouter [a, b] [c, d] h)) (middlewares (sampleRouter [a, b] [c, d] h)) = [a, b]"
  by (simp add: sampleRouter_def sampleGroup_def useAll_def sampleGrow_def ops_defs)

lemma sample_specific:
  "view (heap (sampleRouter [a, b] [c, d] h)) (middleware (sampleRoute [a, b] [c, d] h)) = [c, d]"
  by (simp add: sampleRoute_def sampleRouter_def sampleGroup_def useAll_def sampleGrow_def ops_defs)

lemma sample_handler: "irHandler (sampleRoute [a, b] [c, d] h) = h"
  by (simp add: sampleRoute_def sampleRouter_def sampleGroup_def useAll_def sampleGrow_def ops_defs)

lemma static_globals: "view (heap staticRouter) (middlewares staticRouter) = []"
  by (simp add: staticRouter_def StaticFS_def ops_defs)

lemma static_specific: "view (heap staticRouter) (middleware staticRoute) = []"
  by (simp add: staticRoute_def staticRouter_def StaticFS_def ops_defs)

lemma static_handler:
  "irHandler staticRoute = staticHandler ''/assets'' (sampleFileServer [''/x.png'' \<mapsto> ''PNG''])"
  by (simp add: staticRoute_def staticRouter_def StaticFS_def ops_defs)



lemma applyOption_fields:
  "host (applyOption opt v) = (case opt of WithHost h \<Rightarrow> h | _ \<Rightarrow> host v)"
  "scheme (applyOption opt v) = (case opt of WithScheme s \<Rightarrow> s | _ \<Rightarrow> scheme v)"
  "scope (vrouter (applyOption opt v)) = scope (vrouter v)"
  by (cases opt; simp add: setRouter_def vrouter_def)+

lemma foldl_applyOption_scope:
  "scope (vrouter (foldl (\<lambda>w opt. applyOption opt w) v opts)) = scope (vrouter v)"
  by (induction opts arbitrary: v) (simp_all add: applyOption_fields)

lemma foldl_applyOption_host_none:
  "\<forall>h. WithHost h \<notin> set opts \<Longrightarrow>
   host (foldl (\<lambda>w opt. applyOption opt w) v opts) = host v"
proof (induction opts arbitrary: v)
  case Nil
  then show ?case by simp
next
  case (Cons opt opts)
  from Cons.prems have no: "opt \<noteq> WithHost h" for h
    by auto
  from Cons.prems have rest: "\<forall>h. WithHost h \<notin> set opts"
    by auto
  have "host (applyOption opt v) = host v"
  proof (cases opt)
    case (WithHost h)
    with no [of h] show ?thesis by simp
  qed (simp_all add: setRouter_def)
  with Cons.IH [OF rest] show ?case
    by simp
qed

lemma parseOptions_host: "host (parseOptions opts v) = host (foldl (\<lambda>w opt. applyOption opt w) v opts)"
  by (simp add: parseOptions_def Let_def setRouter_def)

lemma parseOptions_scheme:
  "scheme (parseOptions opts v) = scheme (foldl (\<lambda>w opt. applyOption opt w) v opts)"
  by (simp add: parseOptions_def Let_def setRouter_def)

lemma parseOptions_scope:
  "scope (vrouter (parseOptions opts v)) =
     scope (vrouter v)
     @ (if host (parseOptions opts v) \<noteq> [] then [Host (host (parseOptions opts v))] else [])
     @ (if scheme (parseOptions opts v) \<noteq> [] then [Schemes [host (parseOptions opts v)]] else [])"
  by (simp add: parseOptions_def Let_def setRouter_def vrouter_def Subrouter_def
        foldl_applyOption_scope [unfolded vrouter_def])

lemma New_parse:
  "New opts = parseOptions opts (New [])"
  by (simp add: New_def parseOptions_def Let_def split: prod.splits)

lemma New_nil_fields:
  "host (New []) = []" "scheme (New []) = []" "scope (vrouter (New [])) = []"
  by (simp_all add: ops_defs)

lemma NewProuter_handlers:
  "NotFoundHandler (vrouter (NewProuter grow lm rm opts)) = Some notFoundHandler"
  "MethodNotAllowedHandler (vrouter (NewProuter grow lm rm opts)) = Some notFoundHandler"
  by (simp_all add: NewProuter_def Let_def setRouter_def vrouter_def)

lemma HandleRoute_vrouter: "vrouter (HandleRoute rg method path handler opts v) = vrouter v"
  by (simp add: HandleRoute_def initRouter_def Let_def vrouter_def)

lemma Prouter_UseMiddleware_vrouter: "vrouter (Prouter_UseMiddleware grow m v) = vrouter v"
  by (simp add: Prouter_UseMiddleware_def vrouter_def split: prod.splits)

lemma RouterGroup_UseMiddleware_vrouter:
  "vrouter (snd (RouterGroup_UseMiddleware grow rg m v)) = vrouter v"
  by (simp add: RouterGroup_UseMiddleware_def vrouter_def Let_def split: prod.splits)

lemma Group_vrouter: "vrouter (snd (Group rg prefix v)) = vrouter v"
  by (simp add: Group_def vrouter_def split: prod.splits)

lemma appendSlice_below:
  assumes "below h s g" and "appendSlice grow g m h = (g', h')"
  shows "view h' s = view h s" and "below h' s g'"
  using assms
  by (auto simp: below_def appendSlice_def view_def Let_def split: if_splits)

lemma appendSlice_view:
  assumes "below h g g" and "appendSlice grow g m h = (g', h')"
  shows "view h' g' = view h g @ m"
  using assms
  by (auto simp: below_def appendSlice_def view_def Let_def split: if_splits)

lemma appendSlice_self:
  assumes "below h g g" and "appendSlice grow g m h = (g', h')"
  shows "below h' g' g'"
  using assms
  by (auto simp: below_def appendSlice_def Let_def split: if_splits)

lemma RouterGroup_UseMiddleware_fields:
  assumes "RouterGroup_UseMiddleware grow rg m v = (rg', v')"
  shows "appendSlice grow (gmiddlewares rg) m (heap v) = (gmiddlewares rg', heap v')"
    and "middlewares v' = middlewares v" and "table v' = table v" and "root rg' = root rg"
  using assms
  by (auto simp: RouterGroup_UseMiddleware_def Let_def split: prod.splits if_splits)

lemma useAll_Cons:
  "useAll grow rg (m # mss) v =
     useAll grow (fst (RouterGroup_UseMiddleware grow rg m v)) mss
       (snd (RouterGroup_UseMiddleware grow rg m v))"
  by (simp add: useAll_def split: prod.splits)

lemma useAll_below:
  "below (heap v) s (gmiddlewares rg) \<Longrightarrow> useAll grow rg mss v = (rg', v') \<Longrightarrow>
   view (heap v') s = view (heap v) s \<and> below (heap v') s (gmiddlewares rg') \<and>
   middlewares v' = middlewares v \<and> table v' = table v"
proof (induction mss arbitrary: rg v)
  case Nil
  then show ?case by (simp add: useAll_def)
next
  case (Cons m mss)
  obtain rg1 v1 where step: "RouterGroup_UseMiddleware grow rg m v = (rg1, v1)"
    by (cases "RouterGroup_UseMiddleware grow rg m v")
  note f = RouterGroup_UseMiddleware_fields [OF step]
  from Cons.prems(2) have rest: "useAll grow rg1 mss v1 = (rg', v')"
    by (simp add: useAll_Cons step)
  from appendSlice_below [OF Cons.prems(1) f(1)]
  have keep: "view (heap v1) s = view (heap v) s" and bel: "below (heap v1) s (gmiddlewares rg1)"
    by simp_all
  from Cons.IH [OF bel rest] keep f(2,3) show ?case
    by simp
qed

lemma useAll_view:
  "below (heap v) (gmiddlewares rg) (gmiddlewares rg) \<Longrightarrow> useAll grow rg mss v = (rg', v') \<Longrightarrow>
   view (heap v') (gmiddlewares rg') = view (heap v) (gmiddlewares rg) @ concat mss"
proof (induction mss arbitrary: rg v)
  case Nil
  then show ?case by (simp add: useAll_def)
next
  case (Cons m mss)
  obtain rg1 v1 where step: "RouterGroup_UseMiddleware grow rg m v = (rg1, v1)"
    by (cases "RouterGroup_UseMiddleware grow rg m v")
  note f = RouterGroup_UseMiddleware_fields [OF step]
  from Cons.prems(2) have rest: "useAll grow rg1 mss v1 = (rg', v')"
    by (simp add: useAll_Cons step)
  from appendSlice_self [OF Cons.prems(1) f(1)]
  have bel: "below (heap v1) (gmiddlewares rg1) (gmiddlewares rg1)" .
  from Cons.IH [OF bel rest] appendSlice_view [OF Cons.prems(1) f(1)] show ?case
    by simp
qed

lemma makeHttpHandler_cong:
  "view (heap v') (middlewares v') = view (heap v) (middlewares v) \<Longrightarrow>
   view (heap v') (middleware wr) = view (heap v) (middleware wr) \<Longrightarrow>
   makeHttpHandler lib now v' wr = makeHttpHandler lib now v wr"
  by (rule ext, rule ext) (simp add: makeHttpHandler_chain)

lemma HandleRoute_fields:
  "heap (HandleRoute rg method path handler opts v) = heap v"
  "middlewares (HandleRoute rg method path handler opts v) = middlewares v"
  "middleware (captured (last (table (HandleRoute rg method path handler opts v)))) =
     (if root rg then nilSlice else gmiddlewares rg)"
  by (simp_all add: HandleRoute_def initRouter_def Let_def)

lemma New_allocated:
  "ptr (middlewares (New opts)) < nextArr (heap (New opts))"
  "len (middlewares (New opts)) \<le> length (arrays (heap (New opts)) (ptr (middlewares (New opts))))"
proof -
  have "middlewares (parseOptions opts v) = middlewares v \<and> heap (parseOptions opts v) = heap v" for v :: "'a Prouter"
  proof -
    have "middlewares (foldl (\<lambda>w opt. applyOption opt w) v opts) = middlewares v \<and>
          heap (foldl (\<lambda>w opt. applyOption opt w) v opts) = heap v"
    proof (induction opts arbitrary: v)
      case Nil
      then show ?case by simp
    next
      case (Cons opt opts)
      have "middlewares (applyOption opt v) = middlewares v \<and> heap (applyOption opt v) = heap v"
        by (cases opt) (simp_all add: setRouter_def)
      with Cons.IH [of "applyOption opt v"] show ?case by simp
    qed
    then show ?thesis
      by (simp add: parseOptions_def Let_def setRouter_def)
  qed
  then show "ptr (middlewares (New opts)) < nextArr (heap (New opts))"
    "len (middlewares (New opts)) \<le> length (arrays (heap (New opts)) (ptr (middlewares (New opts))))"
    by (simp_all add: New_def newGroupWithRouter_def make0_def Let_def)
qed

lemma Prouter_UseMiddleware_allocated:
  assumes "ptr (middlewares v) < nextArr (heap v)"
    and "len (middlewares v) \<le> length (arrays (heap v) (ptr (middlewares v)))"
  shows "ptr (middlewares (Prouter_UseMiddleware grow m v))
           < nextArr (heap (Prouter_UseMiddleware grow m v))"
    and "len (middlewares (Prouter_UseMiddleware grow m v))
           \<le> length (arrays (heap (Prouter_UseMiddleware grow m v))
                        (ptr (middlewares (Prouter_UseMiddleware grow m v))))"
  using assms
  by (auto simp: Prouter_UseMiddleware_def appendSlice_def Let_def split: if_splits)

lemma Group_below:
  assumes "Group rg prefix v = (g, v')"
    and "ptr (middlewares v) < nextArr (heap v)"
    and "len (middlewares v) \<le> length (arrays (heap v) (ptr (middlewares v)))"
  shows "\<not> root g" and "below (heap v') (gmiddlewares g) (gmiddlewares g)"
    and "below (heap v') (middlewares v') (gmiddlewares g)"
  using assms
  by (auto simp: Group_def newGroupWithRouter_def make0_def below_def Let_def)

lemma aliasedGroup_state:
  "gmiddlewares (fst aliasedGroup) = \<lparr>ptr = 6, len = 3, cap = 4\<rparr>"
  "\<not> root (fst aliasedGroup)"
  "middlewares (snd aliasedGroup) = \<lparr>ptr = 3, len = 2, cap = 2\<rparr>"
  "nextArr (heap (snd aliasedGroup)) = 7"
  "arrays (heap (snd aliasedGroup)) 6 =
     [traceMiddleware ''C'', traceMiddleware ''D'', traceMiddleware ''E'']"
  "arrays (heap (snd aliasedGroup)) 3 = [traceMiddleware ''A'', traceMiddleware ''B'']"
  by (simp_all add: aliasedGroup_def sampleGroup_def useAll_def sampleGrow_def ops_defs)




lemma HandleRoute_table:
  "table (HandleRoute rg method path handler opts v) \<noteq> []"
  by (simp add: HandleRoute_def initRouter_def Let_def)


lemma static_match:
  "Match lastRouteEngine (table (staticRouter :: nat Prouter)) r = Matched staticRoute"
proof -
  have "table (staticRouter :: nat Prouter) \<noteq> []"
    by (simp add: staticRouter_def StaticFS_def GET_def HandleRoute_table Let_def)
  then show ?thesis
    by (simp add: lastRouteEngine_def staticRoute_def split: list.splits)
qed

lemma staticHandler_delegated:
  assumes "length (TrimPrefix (URLPath (CtxRequest ctx)) prefix) < length (URLPath (CtxRequest ctx))"
    and "URLRawPath (CtxRequest ctx) = []"
  shows "fst (staticHandler prefix fileServer ctx ev) = Ok (None, None)"
  using assms
  by (simp add: staticHandler_def Let_def split: prod.splits)

lemma foldl_applyOption_NotFound:
  "\<forall>h. WithNotFoundHandler h \<notin> set opts \<Longrightarrow>
   NotFoundHandler (vrouter (foldl (\<lambda>w opt. applyOption opt w) v opts)) = NotFoundHandler (vrouter v)"
proof (induction opts arbitrary: v)
  case Nil
  then show ?case by simp
next
  case (Cons opt opts)
  from Cons.prems have no: "opt \<noteq> WithNotFoundHandler h" for h
    by auto
  from Cons.prems have rest: "\<forall>h. WithNotFoundHandler h \<notin> set opts"
    by auto
  have "NotFoundHandler (vrouter (applyOption opt v)) = NotFoundHandler (vrouter v)"
  proof (cases opt)
    case (WithNotFoundHandler h)
    with no [of h] show ?thesis by simp
  qed (simp_all add: setRouter_def vrouter_def)
  with Cons.IH [OF rest] show ?case
    by simp
qed

lemma foldl_applyOption_MethodNotAllowed:
  "\<forall>h. WithMethodNotAllowedHandler h \<notin> set opts \<Longrightarrow>
   MethodNotAllowedHandler (vrouter (foldl (\<lambda>w opt. applyOption opt w) v opts)) =
     MethodNotAllowedHandler (vrouter v)"
proof (induction opts arbitrary: v)
  case Nil
  then show ?case by simp
next
  case (Cons opt opts)
  from Cons.prems have no: "opt \<noteq> WithMethodNotAllowedHandler h" for h
    by auto
  from Cons.prems have rest: "\<forall>h. WithMethodNotAllowedHandler h \<notin> set opts"
    by auto
  have "MethodNotAllowedHandler (vrouter (applyOption opt v)) = MethodNotAllowedHandler (vrouter v)"
  proof (cases opt)
    case (WithMethodNotAllowedHandler h)
    with no [of h] show ?thesis by simp
  qed (simp_all add: setRouter_def vrouter_def)
  with Cons.IH [OF rest] show ?case
    by simp
qed

lemma New_handlers:
  "\<forall>h. WithNotFoundHandler h \<notin> set opts \<Longrightarrow> NotFoundHandler (vrouter (New opts)) = None"
  "\<forall>h. WithMethodNotAllowedHandler h \<notin> set opts \<Longrightarrow>
     MethodNotAllowedHandler (vrouter (New opts)) = None"
proof -
  have nil: "NotFoundHandler (vrouter (New [])) = None"
    "MethodNotAllowedHandler (vrouter (New [])) = None"
    by (simp_all add: ops_defs)
  have p: "NotFoundHandler (vrouter (parseOptions opts v)) =
      (if host (parseOptions opts v) \<noteq> [] \<or> scheme (parseOptions opts v) \<noteq> [] then None
       else NotFoundHandler (vrouter (foldl (\<lambda>w opt. applyOption opt w) v opts)))"
    "MethodNotAllowedHandler (vrouter (parseOptions opts v)) =
      (if host (parseOptions opts v) \<noteq> [] \<or> scheme (parseOptions opts v) \<noteq> [] then None
       else MethodNotAllowedHandler (vrouter (foldl (\<lambda>w opt. applyOption opt w) v opts)))"
    for v :: "'a Prouter"
    by (simp_all add: parseOptions_def Let_def setRouter_def vrouter_def Subrouter_def)
  show "\<forall>h. WithNotFoundHandler h \<notin> set opts \<Longrightarrow> NotFoundHandler (vrouter (New opts)) = None"
    using p(1) [of "New []"] by (simp add: New_parse [symmetric] foldl_applyOption_NotFound nil)
  show "\<forall>h. WithMethodNotAllowedHandler h \<notin> set opts \<Longrightarrow>
     MethodNotAllowedHandler (vrouter (New opts)) = None"
    using p(2) [of "New []"]
    by (simp add: New_parse [symmetric] foldl_applyOption_MethodNotAllowed nil)
qed

section \<open>The claims\<close>

text \<open>
  C10. \<^verbatim>\<open>SetMode\<close> panics for every argument other than \<^verbatim>\<open>DebugMode\<close> (0)
  and \<^verbatim>\<open>ReleaseMode\<close> (1); for those two it returns and the mode becomes the
  given value.
\<close>

theorem SetMode_total:
  "(val = 0 \<or> val = 1 \<longrightarrow> SetMode val m = Ok (sint val)) \<and>
   (val \<noteq> 0 \<and> val \<noteq> 1 \<longrightarrow>
      SetMode val m = Panic (''Prouter mode unknown: '' @ FormatInt (sint val)
                             @ '' (available mode: debug release test)''))"
  by (auto simp: SetMode_def DebugMode_def ReleaseMode_def sint_64_eq_1 sint_64_eq_0)

theorem SetMode_total_witness:
  "((1::64 word) = 0 \<or> (1::64 word) = 1) \<and> SetMode 1 0 = Ok 1 \<and>
   ((2::64 word) \<noteq> 0 \<and> (2::64 word) \<noteq> 1) \<and>
   SetMode 2 0 = Panic ''Prouter mode unknown: 2 (available mode: debug release test)''"
  using SetMode_total [of 1 0] SetMode_total [of 2 0]
  by (simp add: FormatInt_2)

text \<open>
  C2, as stated, fails where the error is \<^verbatim>\<open>nil\<close> and the result carries a
  message: the envelope's message is then empty, not the result's message.
\<close>

theorem packResponseTmpl_message_counterexample:
  "Message (snd (packResponseTmpl (Some \<lparr>Code = 200, Message = ''ok'', Data = Some (1::nat)\<rparr>) None))
     \<noteq> Message \<lparr>Code = 200, Message = ''ok'', Data = Some (1::nat)\<rparr>"
  by (simp add: pack_defs)

text \<open>
  C2, amended.  For every pair \<open>(resp, err)\<close> the envelope has: with an
  error, the result's message when that is non-empty and else the error's
  text, and the result's code unless that is 0 or 200 (or there is no
  result), in which case 500; without an error, the empty message and the
  result's code, 200 when there is no result; the data of the result when
  there is one, else none.  The status returned beside it is its code.
\<close>

theorem packResponseTmpl_envelope:
  "packResponseTmpl resp err = (status, env) \<Longrightarrow>
     status = Code env \<and>
     Data env = (case resp of None \<Rightarrow> None | Some r \<Rightarrow> Data r) \<and>
     (\<forall>e. err = Some e \<longrightarrow>
        Message env = (case resp of None \<Rightarrow> e
                       | Some r \<Rightarrow> if Message r = [] then e else Message r) \<and>
        Code env = (case resp of None \<Rightarrow> 500
                    | Some r \<Rightarrow> if Code r = 0 \<or> Code r = 200 then 500 else Code r)) \<and>
     (err = None \<longrightarrow>
        Message env = [] \<and>
        Code env = (case resp of None \<Rightarrow> 200 | Some r \<Rightarrow> Code r))"
  by (auto simp: pack_defs split: option.splits)

theorem packResponseTmpl_envelope_witness:
  "packResponseTmpl (Some \<lparr>Code = 201, Message = [], Data = Some (7::nat)\<rparr>) (Some ''boom'')
     = (201, \<lparr>Code = 201, Message = ''boom'', Data = Some 7\<rparr>) \<and>
   Message \<lparr>Code = 201, Message = ''boom'', Data = Some (7::nat)\<rparr> = ''boom'' \<and>
   Code \<lparr>Code = 201, Message = ''boom'', Data = Some (7::nat)\<rparr> = 201"
  using packResponseTmpl_envelope
    [of "Some \<lparr>Code = 201, Message = [], Data = Some (7::nat)\<rparr>" "Some ''boom''"
        201 "\<lparr>Code = 201, Message = ''boom'', Data = Some 7\<rparr>"]
  by (simp add: pack_defs)

text \<open>
  C1, as stated, fails: with global middlewares A, B and group middlewares
  C, D the calls are not entered in the order A, B, C, D.
\<close>

theorem middleware_order_counterexample:
  "snd (makeHttpHandler sampleLib 0
          (sampleRouter [traceMiddleware ''A'', traceMiddleware ''B'']
             [traceMiddleware ''C'', traceMiddleware ''D''] (traceHandler ''handler'' (None, None)))
          (sampleRoute [traceMiddleware ''A'', traceMiddleware ''B'']
             [traceMiddleware ''C'', traceMiddleware ''D''] (traceHandler ''handler'' (None, None)))
          (sampleRequest ''/group1/hello2/bob'') []) \<noteq>
     [Trace (Enter ''A''), Trace (Enter ''B''), Trace (Enter ''C''), Trace (Enter ''D''),
      Trace (Body ''handler''),
      Trace (Exit ''D''), Trace (Exit ''C''), Trace (Exit ''B''), Trace (Exit ''A''),
      WriteJSON 200 \<lparr>Code = 200, Message = [], Data = None :: nat option\<rparr>]"
  by (simp add: makeHttpHandler_chain sample_globals sample_specific sample_handler
        traceMiddleware_def traceHandler_def)

text \<open>
  C1, amended.  For a route whose recorded middlewares are \<open>ms\<close>, under
  global middlewares \<open>gs\<close>, the handler invoked at dispatch enters the
  route's own middlewares first, in their order, then the global ones in
  theirs, then the handler, and unwinds in the reverse order: the
  group-local middlewares are outermost and the global ones sit between
  them and the handler.  With globals A, B and group middlewares C, D the
  order is C, D, A, B, handler, B, A, D, C.
\<close>

theorem middleware_order:
  assumes "view (heap v) (middlewares v) = map traceMiddleware gs"
    and "view (heap v) (middleware wr) = map traceMiddleware ms"
    and "irHandler wr = traceHandler n (resp, err)"
  shows "makeHttpHandler lib now v wr r ev =
     (Ok (), ev @ map (Trace \<circ> Enter) ms @ map (Trace \<circ> Enter) gs @ [Trace (Body n)]
               @ map (Trace \<circ> Exit) (rev gs) @ map (Trace \<circ> Exit) (rev ms)
               @ [WriteJSON (fst (packResponseTmpl resp err)) (snd (packResponseTmpl resp err))])"
proof -
  let ?ctx = "newContext lib now r"
  have inner: "foldr (\<lambda>m h. m h) (map traceMiddleware gs) (traceHandler n (resp, err)) ?ctx e =
      (Ok (resp, err), e @ (map (Trace \<circ> Enter) gs @ [Trace (Body n)] @ map (Trace \<circ> Exit) (rev gs)))" for e
    using trace_chain [of "traceHandler n (resp, err)" ?ctx "(resp, err)" "[Trace (Body n)]" gs e]
    by (simp add: traceHandler_def)
  have outer: "foldr (\<lambda>m h. m h) (map traceMiddleware ms)
        (foldr (\<lambda>m h. m h) (map traceMiddleware gs) (traceHandler n (resp, err))) ?ctx ev =
      (Ok (resp, err), ev @ map (Trace \<circ> Enter) ms
         @ (map (Trace \<circ> Enter) gs @ [Trace (Body n)] @ map (Trace \<circ> Exit) (rev gs))
         @ map (Trace \<circ> Exit) (rev ms))"
    by (rule trace_chain) (rule inner)
  show ?thesis
    by (simp add: makeHttpHandler_chain assms outer)
qed

theorem middleware_order_witness:
  "makeHttpHandler sampleLib 0
      (sampleRouter [traceMiddleware ''A'', traceMiddleware ''B'']
         [traceMiddleware ''C'', traceMiddleware ''D''] (traceHandler ''handler'' (None, None)))
      (sampleRoute [traceMiddleware ''A'', traceMiddleware ''B'']
         [traceMiddleware ''C'', traceMiddleware ''D''] (traceHandler ''handler'' (None, None)))
      (sampleRequest ''/group1/hello2/bob'') [] =
     (Ok (), [Trace (Enter ''C''), Trace (Enter ''D''), Trace (Enter ''A''), Trace (Enter ''B''),
              Trace (Body ''handler''),
              Trace (Exit ''B''), Trace (Exit ''A''), Trace (Exit ''D''), Trace (Exit ''C''),
              WriteJSON 200 \<lparr>Code = 200, Message = [], Data = None :: nat option\<rparr>])"
  using middleware_order
    [where v = "sampleRouter [traceMiddleware ''A'', traceMiddleware ''B'']
                  [traceMiddleware ''C'', traceMiddleware ''D''] (traceHandler ''handler'' (None, None))"
       and wr = "sampleRoute [traceMiddleware ''A'', traceMiddleware ''B'']
                  [traceMiddleware ''C'', traceMiddleware ''D''] (traceHandler ''handler'' (None, None))"
       and gs = "[''A'', ''B'']" and ms = "[''C'', ''D'']" and n = "''handler''"
       and resp = None and err = None and lib = sampleLib and now = 0
       and r = "sampleRequest ''/group1/hello2/bob''" and ev = "[]"]
  by (simp add: sample_globals sample_specific sample_handler pack_defs)




text \<open>
  C4.  On a router with the static mount \<^verbatim>\<open>/assets\<close> over a file system
  that holds only \<^verbatim>\<open>/x.png\<close>, the request for \<^verbatim>\<open>/assets/missing.png\<close> is
  answered by the file server's own not-found response followed by an
  envelope with code 200: \<^verbatim>\<open>staticHandler\<close> returns \<^verbatim>\<open>(nil, nil)\<close> once the
  file server has answered, whatever that answer was.  The 404 envelope of
  the claim is what the other branch of the same handler returns.
\<close>

theorem static_missing_file_response:
  "ServeHTTP lastRouteEngine sampleLib 0 (staticRouter :: nat Prouter)
      (sampleRequest ''/assets/missing.png'') [] =
     (Ok (), [WriteRaw 404 ''404 page not found'',
              WriteJSON 200 \<lparr>Code = 200, Message = [], Data = None\<rparr>])"
  by (simp add: ServeHTTP_def static_match makeHttpHandler_chain static_globals static_specific
        static_handler staticHandler_def newContext_def sampleRequest_def TrimPrefix_def
        sampleFileServer_def pack_defs)

text \<open>
  C9. When the scheme configured by the options is non-empty, the scheme
  restriction installed on the underlying router is the configured host,
  not the scheme; without a host option the host is empty, so that
  \<^verbatim>\<open>WithScheme(s)\<close> alone installs the empty string.
\<close>

theorem scheme_option_installs_host:
  "(scheme (New opts) \<noteq> [] \<longrightarrow>
      scope (vrouter (New opts)) =
        (if host (New opts) \<noteq> [] then [Host (host (New opts))] else [])
        @ [Schemes [host (New opts)]]) \<and>
   ((\<forall>h. WithHost h \<notin> set opts) \<longrightarrow> host (New opts) = []) \<and>
   (s \<noteq> [] \<longrightarrow> scope (vrouter (New [WithScheme s])) = [Schemes [[]]])"
proof (intro conjI impI)
  assume "scheme (New opts) \<noteq> []"
  then show "scope (vrouter (New opts)) =
        (if host (New opts) \<noteq> [] then [Host (host (New opts))] else [])
        @ [Schemes [host (New opts)]]"
    using parseOptions_scope [of opts "New []"]
    by (simp add: New_parse [symmetric] New_nil_fields)
next
  assume "\<forall>h. WithHost h \<notin> set opts"
  then show "host (New opts) = []"
    using New_parse [of opts]
    by (simp add: parseOptions_host foldl_applyOption_host_none New_nil_fields)
next
  assume "s \<noteq> []"
  then show "scope (vrouter (New [WithScheme s])) = [Schemes [[]]]"
    by (simp add: ops_defs)
qed

theorem scheme_option_installs_host_witness:
  "scheme (New [WithScheme ''https'', WithHost ''example.org'']) \<noteq> [] \<and>
   scope (vrouter (New [WithScheme ''https'', WithHost ''example.org''])) =
     [Host ''example.org'', Schemes [''example.org'']] \<and>
   (\<forall>h. WithHost h \<notin> set [WithScheme ''https'']) \<and>
   host (New [WithScheme ''https'']) = [] \<and>
   scope (vrouter (New [WithScheme ''https''])) = [Schemes [[]]]"
  using scheme_option_installs_host [of "[WithScheme ''https'', WithHost ''example.org'']" "''https''"]
    scheme_option_installs_host [of "[WithScheme ''https'']" "''https''"]
  by (simp add: ops_defs)

text \<open>
  C8. The client address stored in the request context is \<^verbatim>\<open>clientIP\<close> of
  the request: the string form of the parsed host part of the remote
  address, and the empty string when the address cannot be split or its
  host part cannot be parsed (\<^verbatim>\<open>net.ParseIP\<close> rejects the empty string, which
  is what \<^verbatim>\<open>remoteIP\<close> hands it after a failed split).
\<close>

theorem clientIP_parse_failure:
  assumes "ParseIP lib [] = None"
  shows "ClientIp (newContext lib now r) = clientIP lib r \<and>
    (SplitHostPort lib (TrimSpace lib (RemoteAddr r)) = None \<longrightarrow> clientIP lib r = []) \<and>
    (\<forall>h p. SplitHostPort lib (TrimSpace lib (RemoteAddr r)) = Some (h, p) \<and> ParseIP lib h = None
        \<longrightarrow> clientIP lib r = []) \<and>
    (\<forall>h p ip. SplitHostPort lib (TrimSpace lib (RemoteAddr r)) = Some (h, p) \<and> ParseIP lib h = Some ip
        \<longrightarrow> clientIP lib r = IPString lib ip)"
  using assms
  by (auto simp: newContext_def Let_def clientIP_def remoteIP_def split: option.splits)

theorem clientIP_parse_failure_witness:
  "ParseIP sampleLib [] = None \<and>
   SplitHostPort sampleLib (TrimSpace sampleLib (RemoteAddr ((sampleRequest ''/'')\<lparr>RemoteAddr := ''nonsense''\<rparr>))) = None \<and>
   ClientIp (newContext sampleLib 0 ((sampleRequest ''/'')\<lparr>RemoteAddr := ''nonsense''\<rparr>)) = [] \<and>
   ClientIp (newContext sampleLib 0 (sampleRequest ''/'')) = ''10.0.0.7''"
  using clientIP_parse_failure [of sampleLib 0 "(sampleRequest ''/'')\<lparr>RemoteAddr := ''nonsense''\<rparr>"]
    clientIP_parse_failure [of sampleLib 0 "sampleRequest ''/''"]
  by (simp add: sampleLib_def sampleRequest_def)

text \<open>
  C7, as stated, fails on a router built with \<^verbatim>\<open>New\<close>, which installs no
  handler for a failed lookup: the answer is then the engine's own, not the
  404 envelope.
\<close>

theorem lookup_failure_counterexample:
  "ServeHTTP sampleEngine sampleLib 0 (New [] :: nat Prouter) (sampleRequest ''/nowhere'') [] \<noteq>
     (Ok (), [WriteJSON 404 \<lparr>Code = 404, Message = ''page not found'', Data = None\<rparr>])"
  by (simp add: ServeHTTP_def sampleEngine_def sampleRequest_def New_handlers)

text \<open>
  C7, amended.  On a router set up by \<^verbatim>\<open>NewProuter\<close>, whatever its options,
  a request for which the engine finds no route (not found, or method
  mismatch) is answered by the fixed envelope with code 404 and message
  \<open>page not found\<close>; no middleware and no route handler takes part.  On a
  router built with \<^verbatim>\<open>New\<close> and no option that installs a handler for the
  failure, the answer is the engine's default.
\<close>

theorem lookup_failure_envelope:
  "(vrouter v = vrouter (NewProuter grow lm rm opts) \<and>
    (Match eng (table v) r = ErrNotFound \<or> Match eng (table v) r = ErrMethodMismatch) \<longrightarrow>
      ServeHTTP eng lib now v r ev =
        (Ok (), ev @ [WriteJSON 404 \<lparr>Code = 404, Message = ''page not found'', Data = None\<rparr>])) \<and>
   (vrouter w = vrouter (New opts) \<and> (\<forall>h. WithNotFoundHandler h \<notin> set opts) \<and>
    Match eng (table w) r = ErrNotFound \<longrightarrow>
      ServeHTTP eng lib now w r ev = DefaultNotFound eng r ev) \<and>
   (vrouter w = vrouter (New opts) \<and> (\<forall>h. WithMethodNotAllowedHandler h \<notin> set opts) \<and>
    Match eng (table w) r = ErrMethodMismatch \<longrightarrow>
      ServeHTTP eng lib now w r ev = DefaultMethodNotAllowed eng r ev)"
  by (auto simp: ServeHTTP_def NewProuter_handlers New_handlers notFoundHandler_def
        ErrorResponse_def StatusNotFound_def)

theorem lookup_failure_envelope_witness:
  "vrouter (HandleRoute
        (rootGroup (NewProuter sampleGrow (traceMiddleware ''log'') (traceMiddleware ''recovery'')
           [WithNotFoundHandler (\<lambda>r ev. (Ok (), ev))]))
        MethodGet ''/test'' helloHandler []
        (NewProuter sampleGrow (traceMiddleware ''log'') (traceMiddleware ''recovery'')
           [WithNotFoundHandler (\<lambda>r ev. (Ok (), ev))]) :: nat Prouter) =
     vrouter (NewProuter sampleGrow (traceMiddleware ''log'') (traceMiddleware ''recovery'')
           [WithNotFoundHandler (\<lambda>r ev. (Ok (), ev))]) \<and>
   ServeHTTP sampleEngine sampleLib 0
     (HandleRoute
        (rootGroup (NewProuter sampleGrow (traceMiddleware ''log'') (traceMiddleware ''recovery'')
           [WithNotFoundHandler (\<lambda>r ev. (Ok (), ev))]))
        MethodGet ''/test'' helloHandler []
        (NewProuter sampleGrow (traceMiddleware ''log'') (traceMiddleware ''recovery'')
           [WithNotFoundHandler (\<lambda>r ev. (Ok (), ev))]))
     (sampleRequest ''/nowhere'') ([] :: nat event list) =
    (Ok (), [WriteJSON 404 \<lparr>Code = 404, Message = ''page not found'', Data = None\<rparr>]) \<and>
   ServeHTTP sampleEngine sampleLib 0 (New [WithHost ''example.org''] :: nat Prouter)
     (sampleRequest ''/nowhere'') [] = (Ok (), [WriteRaw 404 ''404 page not found'']) \<and>
   ServeHTTP sampleEngine sampleLib 0 (New [WithHost ''example.org''] :: nat Prouter)
     (sampleRequest ''/test'') [] = (Ok (), [WriteRaw 405 []])"
proof -
  let ?v = "NewProuter sampleGrow (traceMiddleware ''log'') (traceMiddleware ''recovery'')
              [WithNotFoundHandler (\<lambda>r ev. (Ok (), ev))] :: nat Prouter"
  let ?w = "HandleRoute (rootGroup ?v) MethodGet ''/test'' helloHandler [] ?v"
  let ?n = "New [WithHost ''example.org''] :: nat Prouter"
  have same: "vrouter ?w = vrouter ?v"
    by (rule HandleRoute_vrouter)
  have miss: "Match sampleEngine (table ?w) (sampleRequest ''/nowhere'') = ErrNotFound"
    "Match sampleEngine (table ?n) (sampleRequest ''/nowhere'') = ErrNotFound"
    "Match sampleEngine (table ?n) (sampleRequest ''/test'') = ErrMethodMismatch"
    by (simp_all add: sampleEngine_def sampleRequest_def)
  have none: "\<forall>h. WithNotFoundHandler h \<notin> set [WithHost ''example.org'' :: nat RouterOption]"
    "\<forall>h. WithMethodNotAllowedHandler h \<notin> set [WithHost ''example.org'' :: nat RouterOption]"
    by simp_all
  have a: "ServeHTTP sampleEngine sampleLib 0 ?w (sampleRequest ''/nowhere'') [] =
      (Ok (), [WriteJSON 404 \<lparr>Code = 404, Message = ''page not found'', Data = None\<rparr>])"
    using lookup_failure_envelope
      [where v = ?w and grow = sampleGrow and lm = "traceMiddleware ''log''"
         and rm = "traceMiddleware ''recovery''"
         and opts = "[WithNotFoundHandler (\<lambda>r ev. (Ok (), ev))]"
         and eng = sampleEngine and r = "sampleRequest ''/nowhere''" and lib = sampleLib
         and now = 0 and ev = "[]", THEN conjunct1]
      same miss(1)
    by simp
  have b: "ServeHTTP sampleEngine sampleLib 0 ?n (sampleRequest ''/nowhere'') [] =
      DefaultNotFound sampleEngine (sampleRequest ''/nowhere'') []"
    using lookup_failure_envelope
      [where w = ?n and opts = "[WithHost ''example.org'']"
         and eng = sampleEngine and r = "sampleRequest ''/nowhere''" and lib = sampleLib
         and now = 0 and ev = "[]", THEN conjunct2, THEN conjunct1]
      none(1) miss(2)
    by simp
  have c: "ServeHTTP sampleEngine sampleLib 0 ?n (sampleRequest ''/test'') [] =
      DefaultMethodNotAllowed sampleEngine (sampleRequest ''/test'') []"
    using lookup_failure_envelope
      [where w = ?n and opts = "[WithHost ''example.org'']"
         and eng = sampleEngine and r = "sampleRequest ''/test''" and lib = sampleLib
         and now = 0 and ev = "[]", THEN conjunct2, THEN conjunct2]
      none(2) miss(3)
    by simp
  from same a b c show ?thesis
    by (simp add: sampleEngine_def)
qed


text \<open>
  C5. A route registered on a group keeps the middleware sequence recorded
  at registration (the group's sequence of that moment; none for the root
  group, whose routes record no group middleware): after any run of later
  \<^verbatim>\<open>UseMiddleware\<close> calls on the group, which do extend the group's own
  list, the list the route applies is unchanged and so is the handler that
  dispatch invokes for it.  The group's slice is taken to lie within its
  array and the global slice not to reach into it, as is the case for a
  group fresh from \<^verbatim>\<open>Group\<close> (lemma \<open>Group_below\<close>) and after its own
  \<^verbatim>\<open>UseMiddleware\<close> calls (lemmas \<open>appendSlice_below\<close>, \<open>appendSlice_self\<close>).
\<close>

theorem route_middleware_snapshot:
  assumes "below (heap v) (gmiddlewares rg) (gmiddlewares rg)"
    and "below (heap v) (middlewares v) (gmiddlewares rg)"
    and "useAll grow rg mss (HandleRoute rg method path handler opts v) = (rg', v')"
  shows "view (heap v') (middleware (captured (last (table (HandleRoute rg method path handler opts v)))))
           = (if root rg then [] else view (heap v) (gmiddlewares rg)) \<and>
         view (heap v') (gmiddlewares rg') = view (heap v) (gmiddlewares rg) @ concat mss \<and>
         makeHttpHandler lib now v' (captured (last (table (HandleRoute rg method path handler opts v))))
           = makeHttpHandler lib now (HandleRoute rg method path handler opts v)
               (captured (last (table (HandleRoute rg method path handler opts v))))"
proof -
  let ?v1 = "HandleRoute rg method path handler opts v"
  let ?wr = "captured (last (table ?v1))"
  have wr: "middleware ?wr = (if root rg then nilSlice else gmiddlewares rg)"
    by (simp add: HandleRoute_fields)
  have b1: "below (heap ?v1) (gmiddlewares rg) (gmiddlewares rg)"
    and b2: "below (heap ?v1) (middlewares ?v1) (gmiddlewares rg)"
    using assms(1,2) by (simp_all add: HandleRoute_fields)
  have nil: "view h nilSlice = []" for h :: "'a Middleware heap"
    by (simp add: view_def nilSlice_def)
  from useAll_below [OF b1 assms(3)]
  have own0: "view (heap v') (gmiddlewares rg) = view (heap v) (gmiddlewares rg)"
    by (simp add: HandleRoute_fields(1,2))
  have own: "view (heap v') (middleware ?wr) = (if root rg then [] else view (heap v) (gmiddlewares rg))"
    by (simp only: wr own0 nil split: if_split) simp
  have same: "view (heap v') (middleware ?wr) = view (heap ?v1) (middleware ?wr)"
    by (simp only: wr own0 nil HandleRoute_fields(1) split: if_split) simp
  from useAll_below [OF b2 assms(3)]
  have glob: "view (heap v') (middlewares v') = view (heap ?v1) (middlewares ?v1)"
    by simp
  from useAll_view [OF b1 assms(3)]
  have grp: "view (heap v') (gmiddlewares rg') = view (heap v) (gmiddlewares rg) @ concat mss"
    by (simp add: HandleRoute_fields)
  have "makeHttpHandler lib now v' ?wr = makeHttpHandler lib now ?v1 ?wr"
    using glob same by (rule makeHttpHandler_cong)
  with own grp show ?thesis
    by simp
qed

theorem route_middleware_snapshot_witness:
  "\<not> root (fst aliasedGroup) \<and>
   below (heap (snd aliasedGroup)) (gmiddlewares (fst aliasedGroup))
     (gmiddlewares (fst aliasedGroup)) \<and>
   below (heap (snd aliasedGroup)) (middlewares (snd aliasedGroup))
     (gmiddlewares (fst aliasedGroup)) \<and>
   view (heap (snd (useAll sampleGrow (fst aliasedGroup)
                      [[traceMiddleware ''F''], [traceMiddleware ''G'']]
                      (HandleRoute (fst aliasedGroup) MethodGet ''/hello2/{name}'' helloHandler []
                         (snd aliasedGroup)))))
     (middleware (captured (last (table
        (HandleRoute (fst aliasedGroup) MethodGet ''/hello2/{name}'' helloHandler []
           (snd aliasedGroup)))))) =
     [traceMiddleware ''C'', traceMiddleware ''D'', traceMiddleware ''E'']"
proof -
  let ?G = "fst aliasedGroup"
  let ?V = "snd aliasedGroup"
  let ?V1 = "HandleRoute ?G MethodGet ''/hello2/{name}'' helloHandler [] ?V"
  let ?mss = "[[traceMiddleware ''F''], [traceMiddleware ''G'']] :: nat Middleware list list"
  note st = aliasedGroup_state
  have b1: "below (heap ?V) (gmiddlewares ?G) (gmiddlewares ?G)"
    and b2: "below (heap ?V) (middlewares ?V) (gmiddlewares ?G)"
    by (simp_all add: below_def st)
  have run: "useAll sampleGrow ?G ?mss ?V1 =
      (fst (useAll sampleGrow ?G ?mss ?V1), snd (useAll sampleGrow ?G ?mss ?V1))"
    by simp
  from route_middleware_snapshot [OF b1 b2 run, of sampleLib 0]
  have "view (heap (snd (useAll sampleGrow ?G ?mss ?V1)))
          (middleware (captured (last (table ?V1)))) = view (heap ?V) (gmiddlewares ?G)"
    by (simp add: st(2))
  also have "\<dots> = [traceMiddleware ''C'', traceMiddleware ''D'', traceMiddleware ''E'']"
    by (simp add: view_def st)
  finally show ?thesis
    using st(2) b1 b2 by simp
qed

end
